theory Spec2Isabelle
  imports Main "HOL-Library.Word" "HOL-Library.Sublist"
begin

section \<open>Python strings\<close>

text \<open>
  A Python \<open>str\<close> is a sequence of code points and \<open>len\<close> counts code points. A
  \<^typ>\<open>string\<close> stands for a \<open>str\<close> whose code points all lie in U+0000..U+00FF: one
  \<^typ>\<open>char\<close> is one code point, \<open>ord\<close> reads it. The character classes below are
  those of CPython on that range: \<open>str.isspace\<close> (which \<open>str.strip\<close> and the regular
  expression class \<open>\s\<close> use), \<open>str.isalnum\<close> (which, with the underscore, is the
  class \<open>\w\<close>), and \<open>str.lower\<close>, which on this range maps each capital letter to
  the code point 32 above it and changes nothing else.
\<close>

definition ord :: "char \<Rightarrow> nat" where
  "ord c = of_char c"

definition isspace :: "char \<Rightarrow> bool" where
  "isspace c =
     (let k = ord c in (9 \<le> k \<and> k \<le> 13) \<or> (28 \<le> k \<and> k \<le> 32) \<or> k = 133 \<or> k = 160)"

definition isalnum :: "char \<Rightarrow> bool" where
  "isalnum c =
     (let k = ord c in
        (48 \<le> k \<and> k \<le> 57) \<or> (65 \<le> k \<and> k \<le> 90) \<or> (97 \<le> k \<and> k \<le> 122)
        \<or> k = 170 \<or> k = 178 \<or> k = 179 \<or> k = 181 \<or> k = 185 \<or> k = 186
        \<or> (188 \<le> k \<and> k \<le> 190)
        \<or> (192 \<le> k \<and> k \<le> 214) \<or> (216 \<le> k \<and> k \<le> 246) \<or> (248 \<le> k \<and> k \<le> 255))"

definition lower_char :: "char \<Rightarrow> char" where
  "lower_char c =
     (let k = ord c in
        if (65 \<le> k \<and> k \<le> 90) \<or> (192 \<le> k \<and> k \<le> 222 \<and> k \<noteq> 215)
        then char_of (k + 32) else c)"

text \<open>\<open>s.lower()\<close>\<close>

definition lower :: "string \<Rightarrow> string" where
  "lower s = map lower_char s"

text \<open>\<open>s.strip()\<close>: leading and trailing whitespace removed.\<close>

definition strip :: "string \<Rightarrow> string" where
  "strip s = rev (dropWhile isspace (rev (dropWhile isspace s)))"

text \<open>\<open>s.rstrip('_')\<close>\<close>

definition rstrip_underscore :: "string \<Rightarrow> string" where
  "rstrip_underscore s = rev (dropWhile (\<lambda>c. c = CHR ''_'') (rev s))"

text \<open>\<open>t in s\<close> for two strings: \<open>t\<close> occurs in \<open>s\<close> as a contiguous substring.\<close>

fun str_in :: "string \<Rightarrow> string \<Rightarrow> bool" where
  "str_in t [] = (t = [])"
| "str_in t (c # cs) = (prefix t (c # cs) \<or> str_in t cs)"

text \<open>
  The two regular expressions of the source are character classes. \<open>word_char\<close> is
  \<open>\w\<close>; \<open>stripped_char\<close> is the class \<open>[^\w\s-]\<close> and \<open>separator_char\<close> the class
  \<open>[-\s]\<close>.
\<close>

definition word_char :: "char \<Rightarrow> bool" where
  "word_char c = (isalnum c \<or> c = CHR ''_'')"

definition stripped_char :: "char \<Rightarrow> bool" where
  "stripped_char c = (\<not> (word_char c \<or> isspace c \<or> c = CHR ''-''))"

definition separator_char :: "char \<Rightarrow> bool" where
  "separator_char c = (c = CHR ''-'' \<or> isspace c)"

text \<open>
  \<open>re.sub('[cls]', repl, s)\<close>: every character of the class is a match of its own
  and is replaced.
\<close>

fun re_sub_each :: "(char \<Rightarrow> bool) \<Rightarrow> string \<Rightarrow> string \<Rightarrow> string" where
  "re_sub_each cls repl [] = []"
| "re_sub_each cls repl (c # cs) =
     (if cls c then repl @ re_sub_each cls repl cs else c # re_sub_each cls repl cs)"

text \<open>
  \<open>re.sub('[cls]+', repl, s)\<close>: scanning from the left, a character of the class
  starts a match, the greedy \<open>+\<close> extends it over all following characters of the
  class, the whole match is replaced once and the scan goes on after it.
\<close>

function re_sub_runs :: "(char \<Rightarrow> bool) \<Rightarrow> string \<Rightarrow> string \<Rightarrow> string" where
  "re_sub_runs cls repl [] = []"
| "re_sub_runs cls repl (c # cs) =
     (if cls c then repl @ re_sub_runs cls repl (dropWhile cls cs)
      else c # re_sub_runs cls repl cs)"
  by pat_completeness auto
termination
  by (relation "measure (\<lambda>(cls, repl, s). length s)")
     (auto simp: length_dropWhile_le less_Suc_eq_le)

section \<open>Wall-clock time\<close>

text \<open>
  What \<open>datetime.now()\<close> returns, field by field. \<open>strftime\<close> writes the year on
  four digits and every other field on two, padded with zeros.
\<close>

record datetime =
  year :: nat
  month :: nat
  day :: nat
  hour :: nat
  minute :: nat
  second :: nat

definition digit_char :: "nat \<Rightarrow> char" where
  "digit_char d = char_of (48 + d mod 10)"

definition two_digits :: "nat \<Rightarrow> string" where
  "two_digits k = [digit_char (k div 10), digit_char k]"

definition four_digits :: "nat \<Rightarrow> string" where
  "four_digits k =
     [digit_char (k div 1000), digit_char (k div 100), digit_char (k div 10), digit_char k]"

text \<open>\<open>t.strftime("%Y%m%d_%H%M%S")\<close>\<close>

definition strftime :: "datetime \<Rightarrow> string" where
  "strftime t =
     four_digits (year t) @ two_digits (month t) @ two_digits (day t) @ ''_''
     @ two_digits (hour t) @ two_digits (minute t) @ two_digits (second t)"

section \<open>The safe filename\<close>

text \<open>
  \<open>ImageGenerationService._generate_safe_filename\<close>. The clock is read inside the
  method; here the time it returns is the argument \<open>now\<close>.
\<close>

definition clean_prompt :: "string \<Rightarrow> string" where
  "clean_prompt prompt =
     (let clean1 = re_sub_each stripped_char [] (lower prompt);
          clean2 = re_sub_runs separator_char ''_'' clean1
      in if length clean2 > 50 then rstrip_underscore (take 50 clean2) else clean2)"

definition generate_safe_filename :: "datetime \<Rightarrow> string \<Rightarrow> string \<Rightarrow> string" where
  "generate_safe_filename now prompt generation_id =
     clean_prompt prompt @ ''_'' @ strftime now @ ''_'' @ generation_id @ ''.png''"

text \<open>
  The filename rule as the specification words it, step by step, with the set of
  characters that survive the stripping step as a parameter: lowercase, keep only the
  characters of \<open>keep\<close>, turn each run of whitespace and hyphens into one underscore,
  cut to 50 characters (trimming trailing underscores when cutting), append the
  timestamp, the generation id and the extension.
\<close>

fun collapse_runs :: "bool \<Rightarrow> string \<Rightarrow> string" where
  "collapse_runs in_run [] = []"
| "collapse_runs in_run (c # cs) =
     (if c = CHR ''-'' \<or> isspace c
      then (if in_run then [] else ''_'') @ collapse_runs True cs
      else c # collapse_runs False cs)"

definition truncate_50 :: "string \<Rightarrow> string" where
  "truncate_50 s = (if length s \<le> 50 then s else rstrip_underscore (take 50 s))"

definition filename_rule :: "(char \<Rightarrow> bool) \<Rightarrow> datetime \<Rightarrow> string \<Rightarrow> string \<Rightarrow> string" where
  "filename_rule keep now prompt generation_id =
     truncate_50 (collapse_runs False (filter keep (lower prompt)))
     @ ''_'' @ strftime now @ ''_'' @ generation_id @ ''.png''"

text \<open>The stripping step as the specification states it, and as the source has it.\<close>

definition stated_keep :: "char \<Rightarrow> bool" where
  "stated_keep c = (isalnum c \<or> isspace c \<or> c = CHR ''-'')"

definition source_keep :: "char \<Rightarrow> bool" where
  "source_keep c = (isalnum c \<or> c = CHR ''_'' \<or> isspace c \<or> c = CHR ''-'')"

definition new_year_noon :: datetime where
  "new_year_noon = \<lparr>year = 2025, month = 1, day = 1, hour = 12, minute = 0, second = 0\<rparr>"

section \<open>The data model\<close>

text \<open>
  The classes \<open>ImageOptions\<close>, \<open>ImageResult\<close> and \<open>ImageError\<close> are imported by
  both source files from a module that is not among them; the records below have the
  fields the two files read and write. \<open>size_opt\<close> and \<open>n_images\<close> are the fields
  \<open>size\<close> and \<open>n\<close>; \<open>base64_data\<close> is the base64 payload of a result. A field that
  may be \<open>None\<close> is an \<open>option\<close>, and \<open>truthy\<close> is Python's truth test on such a
  field: neither \<open>None\<close> nor the empty string.
\<close>

record image_options =
  model :: string
  size_opt :: string
  response_format :: string
  n_images :: int
  quality :: "string option"
  style :: "string option"

type_synonym bytes = "8 word list"

record image_result =
  generation_id :: string
  image_url :: "string option"
  base64_data :: "string option"
  revised_prompt :: "string option"
  file_path :: "string option"
  image_data :: "bytes option"
  created_at :: int

record image_error =
  code :: string
  message :: string
  details :: "(string \<times> string) list"

text \<open>
  What a call raises. \<open>ValueError\<close> and \<open>ImageError\<close> are the two classes the source
  raises itself; \<open>OtherException\<close> is any other subclass of \<open>Exception\<close>, with the
  text \<open>str(e)\<close> gives.
\<close>

datatype exn = ValueError string | ImageError image_error | OtherException string

definition truthy :: "string option \<Rightarrow> bool" where
  "truthy v = (case v of None \<Rightarrow> False | Some s \<Rightarrow> s \<noteq> [])"

text \<open>
  Python values that occur in the payload and in the response, and dictionaries with
  string keys in insertion order. \<open>dict_set d k v\<close> is \<open>d[k] = v\<close>.
\<close>

datatype pyval = PNone | PStr string | PInt int

type_synonym 'v dict = "(string \<times> 'v) list"

fun dict_set :: "'v dict \<Rightarrow> string \<Rightarrow> 'v \<Rightarrow> 'v dict" where
  "dict_set [] k v = [(k, v)]"
| "dict_set ((k', v') # d) k v =
     (if k' = k then (k, v) # d else (k', v') # dict_set d k v)"

definition has_key :: "'v dict \<Rightarrow> string \<Rightarrow> bool" where
  "has_key d k = (map_of d k \<noteq> None)"

section \<open>The environment\<close>

text \<open>
  The exceptions of the provider's SDK, each with the text \<open>str(e)\<close> gives.
  \<open>AuthenticationError\<close> and \<open>RateLimitError\<close> are subclasses of \<open>APIError\<close> in the
  SDK; \<open>APIError\<close> here is an \<open>APIError\<close> that is neither of the two, and
  \<open>UnexpectedError\<close> any other \<open>Exception\<close>.
\<close>

datatype provider_exn =
  AuthenticationError string
| RateLimitError string
| APIError string
| UnexpectedError string

text \<open>
  The SDK's response object: the attribute \<open>created\<close> when there is one, and the
  images, each an object given by its attributes.
\<close>

record sdk_response =
  resp_created :: "pyval option"
  resp_data :: "pyval dict list"

record raw_response =
  raw_created :: pyval
  raw_data :: "pyval dict list"

text \<open>
  \<open>requests.get(url, timeout=...)\<close> followed by \<open>raise_for_status()\<close>: the body of
  the response; an \<open>HTTPError\<close> for a status that \<open>raise_for_status\<close> rejects;
  another \<open>RequestException\<close> raised by the request itself (connection, timeout,
  invalid url); an \<open>OSError\<close> that is not a \<open>RequestException\<close>; or an exception of
  another class. \<open>RequestException\<close> is a subclass of \<open>OSError\<close>, and the handler for
  \<open>RequestException\<close> comes first in the source.
\<close>

datatype http_outcome =
  Http_content bytes
| HTTPError string
| RequestFailure string
| Http_oserror string
| Http_exception string

text \<open>
  A file system call: done, an \<open>OSError\<close>, or an exception of another class (such as
  the \<open>ValueError\<close> for a path with a null character).
\<close>

datatype fs_outcome = Fs_done | OSError string | Fs_exception string

text \<open>
  Everything outside the two source files: the SDK call
  \<open>client.images.generate(**payload)\<close>, the parser \<open>parser.parse(raw, prompt)\<close> (its
  module is not among the source files), the HTTP download, \<open>os.makedirs\<close>, opening
  and writing the file, the clock, the default model, size, response format and count
  of \<open>ImageOptions\<close>, and \<open>str\<close> of a result. Each is a function of its arguments:
  what a call answers does not depend on the calls made before it.
\<close>

record world =
  images_generate :: "pyval dict \<Rightarrow> provider_exn + sdk_response"
  parse :: "raw_response \<Rightarrow> string \<Rightarrow> exn + image_result"
  requests_get :: "string \<Rightarrow> nat \<Rightarrow> http_outcome"
  makedirs :: "string \<Rightarrow> fs_outcome"
  write_file :: "string \<Rightarrow> bytes \<Rightarrow> fs_outcome"
  now :: datetime
  default_model :: string
  default_size :: string
  default_response_format :: string
  default_n :: int
  str_result :: "image_result \<Rightarrow> string"

text \<open>
  Modelled from the spec: the constructor of \<open>ImageOptions\<close>, whose module is not
  among the source files. The spec gives the baseline configuration a default model,
  size, response format and count, and describes quality and style as optional: they
  are \<open>None\<close> unless the call names them. \<open>image_options_init\<close> takes the model, size,
  quality and style that a call names, \<open>None\<close> for one that it leaves out.
\<close>

definition image_options_init ::
  "world \<Rightarrow> string option \<Rightarrow> string option \<Rightarrow> string option \<Rightarrow> string option
     \<Rightarrow> image_options" where
  "image_options_init w model_arg size_arg quality_arg style_arg =
     \<lparr>model = (case model_arg of None \<Rightarrow> default_model w | Some m \<Rightarrow> m),
      size_opt = (case size_arg of None \<Rightarrow> default_size w | Some s \<Rightarrow> s),
      response_format = default_response_format w,
      n_images = default_n w,
      quality = quality_arg,
      style = style_arg\<rparr>"

text \<open>
  Modelled from the spec: \<open>ImageOptions()\<close>, the baseline configuration, which is the
  constructor called with no argument.
\<close>

definition default_options :: "world \<Rightarrow> image_options" where
  "default_options w = image_options_init w None None None None"

text \<open>The calls that leave the process, in the order they are made.\<close>

datatype event =
  ProviderCall "pyval dict"
| HttpGet string nat
| MakeDirs string
| WriteFile string bytes

fun is_download :: "event \<Rightarrow> bool" where
  "is_download (HttpGet _ _) = True"
| "is_download _ = False"

fun is_write :: "event \<Rightarrow> bool" where
  "is_write (WriteFile _ _) = True"
| "is_write _ = False"

text \<open>\<open>os.path.dirname\<close> and \<open>os.path.join\<close> of two components, as \<open>posixpath\<close> has them.\<close>

definition rstrip_slash :: "string \<Rightarrow> string" where
  "rstrip_slash s = rev (dropWhile (\<lambda>c. c = CHR ''/'') (rev s))"

definition dirname :: "string \<Rightarrow> string" where
  "dirname p =
     (let head = rev (dropWhile (\<lambda>c. c \<noteq> CHR ''/'') (rev p))
      in if head \<noteq> [] \<and> \<not> list_all (\<lambda>c. c = CHR ''/'') head then rstrip_slash head else head)"

definition path_join :: "string \<Rightarrow> string \<Rightarrow> string" where
  "path_join a b =
     (if prefix ''/'' b then b
      else if a = [] \<or> suffix ''/'' a then a @ b
      else a @ ''/'' @ b)"

section \<open>The transport client\<close>

text \<open>\<open>ImageGenerationClient._construct_payload\<close>\<close>

definition construct_payload :: "string \<Rightarrow> image_options \<Rightarrow> pyval dict" where
  "construct_payload prompt options =
     (let payload = [(''model'', PStr (model options)),
                     (''prompt'', PStr prompt),
                     (''size'', PStr (size_opt options)),
                     (''response_format'', PStr (response_format options)),
                     (''n'', PInt (n_images options))];
          payload = (case quality options of
                       Some q \<Rightarrow> if model options = ''dall-e-3'' \<and> q \<noteq> []
                                 then dict_set payload ''quality'' (PStr q) else payload
                     | None \<Rightarrow> payload);
          payload = (case style options of
                       Some s \<Rightarrow> if model options = ''dall-e-3'' \<and> s \<noteq> []
                                 then dict_set payload ''style'' (PStr s) else payload
                     | None \<Rightarrow> payload)
      in payload)"

text \<open>\<open>ImageGenerationClient._response_to_dict\<close>\<close>

definition image_to_dict :: "pyval dict \<Rightarrow> pyval dict" where
  "image_to_dict img =
     (let image_dict = [];
          image_dict = (case map_of img ''url'' of
                          Some v \<Rightarrow> dict_set image_dict ''url'' v | None \<Rightarrow> image_dict);
          image_dict = (case map_of img ''b64_json'' of
                          Some v \<Rightarrow> dict_set image_dict ''b64_json'' v | None \<Rightarrow> image_dict);
          image_dict = (case map_of img ''revised_prompt'' of
                          Some v \<Rightarrow> dict_set image_dict ''revised_prompt'' v | None \<Rightarrow> image_dict)
      in image_dict)"

definition response_to_dict :: "sdk_response \<Rightarrow> raw_response" where
  "response_to_dict response =
     \<lparr>raw_created = (case resp_created response of Some v \<Rightarrow> v | None \<Rightarrow> PInt 0),
      raw_data = map image_to_dict (resp_data response)\<rparr>"

text \<open>
  The handlers of \<open>ImageGenerationClient.generate_image\<close>, in the order of the
  \<open>except\<close> clauses.
\<close>

fun map_provider_error :: "provider_exn \<Rightarrow> image_error" where
  "map_provider_error (AuthenticationError e) =
     \<lparr>code = ''AUTHENTICATION_ERROR'',
      message = ''Invalid API key or authentication failed'',
      details = [(''original_error'', e)]\<rparr>"
| "map_provider_error (RateLimitError e) =
     \<lparr>code = ''RATE_LIMIT_ERROR'',
      message = ''API rate limit exceeded'',
      details = [(''original_error'', e)]\<rparr>"
| "map_provider_error (APIError e) =
     (let error_msg = lower e
      in if str_in ''content policy'' error_msg \<or> str_in ''safety'' error_msg
         then \<lparr>code = ''CONTENT_POLICY_ERROR'',
               message = ''Prompt violates OpenAI'' @ [CHR 0x27] @ ''s content policy'',
               details = [(''original_error'', e)]\<rparr>
         else \<lparr>code = ''API_ERROR'',
               message = ''API request failed: '' @ e,
               details = [(''original_error'', e)]\<rparr>)"
| "map_provider_error (UnexpectedError e) =
     \<lparr>code = ''UNKNOWN_ERROR'',
      message = ''Unexpected error: '' @ e,
      details = [(''original_error'', e)]\<rparr>"

text \<open>\<open>str(e)\<close> of an exception of the SDK.\<close>

fun failure_text :: "provider_exn \<Rightarrow> string" where
  "failure_text (AuthenticationError e) = e"
| "failure_text (RateLimitError e) = e"
| "failure_text (APIError e) = e"
| "failure_text (UnexpectedError e) = e"

text \<open>\<open>if options is None: options = ImageOptions()\<close>\<close>

definition or_default :: "world \<Rightarrow> image_options option \<Rightarrow> image_options" where
  "or_default w options = (case options of None \<Rightarrow> default_options w | Some opts \<Rightarrow> opts)"

text \<open>
  \<open>ImageGenerationClient.generate_image\<close>: the value returned or the exception
  raised, and the calls made.
\<close>

definition client_generate_image ::
  "world \<Rightarrow> string \<Rightarrow> image_options option \<Rightarrow> (exn + raw_response) \<times> event list" where
  "client_generate_image w prompt options =
     (if prompt = [] \<or> strip prompt = [] then (Inl (ValueError ''Prompt cannot be empty''), [])
      else if length prompt > 4000
      then (Inl (ValueError ''Prompt too long (max 4000 characters)''), [])
      else
        let options = or_default w options;
            payload = construct_payload prompt options
        in (case images_generate w payload of
              Inr response \<Rightarrow> Inr (response_to_dict response)
            | Inl e \<Rightarrow> Inl (ImageError (map_provider_error e)),
            [ProviderCall payload]))"

section \<open>The orchestration service\<close>

text \<open>\<open>ImageGenerationService.validate_prompt\<close>\<close>

definition problematic_terms :: "string list" where
  "problematic_terms = [''violence'', ''gore'', ''explicit'']"

definition validate_prompt :: "string \<Rightarrow> bool" where
  "validate_prompt prompt =
     (if prompt = [] then False
      else if strip prompt = [] then False
      else if length prompt > 4000 then False
      else
        let prompt_lower = lower prompt
        in if list_ex (\<lambda>t. str_in t prompt_lower) problematic_terms then False else True)"



text \<open>
  \<open>ImageGenerationService.download_and_save_image\<close>. The method changes the object
  it is given, and the caller still holds that object when the method raises: a run
  is the exception raised (\<open>None\<close> when the method returns, and then it returns the
  object), the state of the object when the method ends, and the calls made.

  \<open>no_image_url\<close> is the guard before the \<open>try\<close> statement, \<open>download_error\<close> the
  handler for \<open>RequestException\<close> and \<open>save_error\<close> the handler for \<open>OSError\<close>.
  \<open>save_to_file\<close> is the part of the \<open>try\<close> block that follows the assignment to
  \<open>image_data\<close>: \<open>os.makedirs\<close> on the directory of the path, then opening and
  writing the file, then the assignment to \<open>file_path\<close>.
\<close>

record download_run =
  raised :: "exn option"
  result_after :: image_result
  calls :: "event list"

definition download_error :: "string \<Rightarrow> string \<Rightarrow> exn" where
  "download_error url e =
     ImageError \<lparr>code = ''DOWNLOAD_ERROR'',
                 message = ''Failed to download image: '' @ e,
                 details = [(''url'', url), (''error'', e)]\<rparr>"

definition save_error :: "string \<Rightarrow> string \<Rightarrow> exn" where
  "save_error save_path e =
     ImageError \<lparr>code = ''SAVE_ERROR'',
                 message = ''Failed to save image: '' @ e,
                 details = [(''save_path'', save_path), (''error'', e)]\<rparr>"

definition save_to_file :: "world \<Rightarrow> image_result \<Rightarrow> string \<Rightarrow> bytes \<Rightarrow> event list \<Rightarrow> download_run" where
  "save_to_file w result save_path content cs =
     (let d = dirname save_path
      in case makedirs w d of
           OSError e \<Rightarrow>
             \<lparr>raised = Some (save_error save_path e), result_after = result,
              calls = cs @ [MakeDirs d]\<rparr>
         | Fs_exception e \<Rightarrow>
             \<lparr>raised = Some (OtherException e), result_after = result,
              calls = cs @ [MakeDirs d]\<rparr>
         | Fs_done \<Rightarrow>
             (case write_file w save_path content of
                OSError e \<Rightarrow>
                  \<lparr>raised = Some (save_error save_path e), result_after = result,
                   calls = cs @ [MakeDirs d, WriteFile save_path content]\<rparr>
              | Fs_exception e \<Rightarrow>
                  \<lparr>raised = Some (OtherException e), result_after = result,
                   calls = cs @ [MakeDirs d, WriteFile save_path content]\<rparr>
              | Fs_done \<Rightarrow>
                  \<lparr>raised = None, result_after = result\<lparr>file_path := Some save_path\<rparr>,
                   calls = cs @ [MakeDirs d, WriteFile save_path content]\<rparr>))"

definition no_image_url :: "world \<Rightarrow> image_result \<Rightarrow> download_run" where
  "no_image_url w result =
     \<lparr>raised = Some (ImageError
         \<lparr>code = ''DOWNLOAD_ERROR'',
          message = ''No image URL available for download'',
          details = [(''result'', str_result w result)]\<rparr>),
      result_after = result, calls = []\<rparr>"

definition download_and_save_image :: "world \<Rightarrow> image_result \<Rightarrow> string \<Rightarrow> download_run" where
  "download_and_save_image w result save_path =
     (case image_url result of
        None \<Rightarrow> no_image_url w result
      | Some url \<Rightarrow>
          if url = [] then no_image_url w result
          else
            (case requests_get w url 30 of
               RequestFailure e \<Rightarrow>
                 \<lparr>raised = Some (download_error url e), result_after = result,
                  calls = [HttpGet url 30]\<rparr>
             | HTTPError e \<Rightarrow>
                 \<lparr>raised = Some (download_error url e), result_after = result,
                  calls = [HttpGet url 30]\<rparr>
             | Http_oserror e \<Rightarrow>
                 \<lparr>raised = Some (save_error save_path e), result_after = result,
                  calls = [HttpGet url 30]\<rparr>
             | Http_exception e \<Rightarrow>
                 \<lparr>raised = Some (OtherException e), result_after = result,
                  calls = [HttpGet url 30]\<rparr>
             | Http_content content \<Rightarrow>
                 save_to_file w (result\<lparr>image_data := Some content\<rparr>) save_path content
                   [HttpGet url 30]))"

text \<open>
  \<open>ImageGenerationService.generate_image\<close>. \<open>generate_image_try\<close> is the body of the
  \<open>try\<close> statement and \<open>generate_image_except\<close> its two handlers; the validation comes
  before the \<open>try\<close>. \<open>returned\<close> is what the caller of \<open>download_and_save_image\<close>
  gets from a run: the exception, or the object.
\<close>

definition returned :: "download_run \<Rightarrow> exn + image_result" where
  "returned r = (case raised r of Some e \<Rightarrow> Inl e | None \<Rightarrow> Inr (result_after r))"

definition generate_image_try ::
  "world \<Rightarrow> string \<Rightarrow> image_options \<Rightarrow> bool \<Rightarrow> string \<Rightarrow> (exn + image_result) \<times> event list" where
  "generate_image_try w prompt options auto_save save_dir =
     (case client_generate_image w prompt (Some options) of
        (Inl e, cs) \<Rightarrow> (Inl e, cs)
      | (Inr raw_response, cs) \<Rightarrow>
          (case parse w raw_response prompt of
             Inl e \<Rightarrow> (Inl e, cs)
           | Inr result \<Rightarrow>
               if auto_save \<and> truthy (image_url result) then
                 let safe_filename = generate_safe_filename (now w) prompt (generation_id result);
                     save_path = path_join save_dir safe_filename;
                     r = download_and_save_image w result save_path
                 in (returned r, cs @ calls r)
               else (Inr result, cs)))"

text \<open>
  The path of the automatic save in \<open>generate_image\<close>: the safe filename joined to
  \<open>save_dir\<close>.
\<close>

definition auto_save_path :: "world \<Rightarrow> string \<Rightarrow> string \<Rightarrow> image_result \<Rightarrow> string" where
  "auto_save_path w save_dir prompt result =
     path_join save_dir (generate_safe_filename (now w) prompt (generation_id result))"

definition generation_failed :: "string \<Rightarrow> exn" where
  "generation_failed e =
     ImageError \<lparr>code = ''GENERATION_FAILED'',
                 message = ''Image generation failed: '' @ e,
                 details = [(''original_error'', e)]\<rparr>"

fun generate_image_except :: "exn \<Rightarrow> exn" where
  "generate_image_except (ImageError e) = ImageError e"
| "generate_image_except (ValueError e) = generation_failed e"
| "generate_image_except (OtherException e) = generation_failed e"

definition generate_image ::
  "world \<Rightarrow> string \<Rightarrow> image_options option \<Rightarrow> bool \<Rightarrow> string \<Rightarrow> (exn + image_result) \<times> event list" where
  "generate_image w prompt options auto_save save_dir =
     (if \<not> validate_prompt prompt then
        (Inl (ValueError ''Invalid prompt: must be non-empty and under 4000 characters''), [])
      else
        let options = or_default w options
        in case generate_image_try w prompt options auto_save save_dir of
             (Inl e, cs) \<Rightarrow> (Inl (generate_image_except e), cs)
           | (Inr result, cs) \<Rightarrow> (Inr result, cs))"

text \<open>
  \<open>ImageGenerationService.generate_and_save\<close>: the call of \<open>generate_image\<close> passes
  the prompt and the options only, so \<open>auto_save\<close> and \<open>save_dir\<close> have their default
  values \<open>True\<close> and \<open>"generated_images"\<close>.
\<close>

definition generate_and_save ::
  "world \<Rightarrow> string \<Rightarrow> string \<Rightarrow> image_options option \<Rightarrow> (exn + image_result) \<times> event list" where
  "generate_and_save w prompt save_path options =
     (case generate_image w prompt options True ''generated_images'' of
        (Inl e, cs) \<Rightarrow> (Inl e, cs)
      | (Inr result, cs) \<Rightarrow>
          (let r = download_and_save_image w result save_path
           in (returned r, cs @ calls r)))"

section \<open>Notions of the specification\<close>

text \<open>
  \<open>t\<close> occurs in \<open>s\<close> when case is ignored: some contiguous part of \<open>s\<close> and \<open>t\<close> have
  the same lowercase form.
\<close>

definition contains_ignoring_case :: "string \<Rightarrow> string \<Rightarrow> bool" where
  "contains_ignoring_case t s = (\<exists>ps m ss. s = ps @ m @ ss \<and> lower m = lower t)"

text \<open>A result has its url or its base64 payload populated.\<close>

definition populated :: "image_result \<Rightarrow> bool" where
  "populated r = (truthy (image_url r) \<or> truthy (base64_data r))"

section \<open>A sample environment\<close>

text \<open>
  A sample parser: the result is built from the first image of the response, with
  the url and the base64 payload that image has; a response without images makes it
  fail as an index out of range does.
\<close>

definition str_value :: "pyval option \<Rightarrow> string option" where
  "str_value v = (case v of Some (PStr s) \<Rightarrow> Some s | _ \<Rightarrow> None)"

definition int_value :: "pyval \<Rightarrow> int" where
  "int_value v = (case v of PInt k \<Rightarrow> k | _ \<Rightarrow> 0)"

definition sample_parse :: "raw_response \<Rightarrow> string \<Rightarrow> exn + image_result" where
  "sample_parse raw prompt =
     (case raw_data raw of
        [] \<Rightarrow> Inl (OtherException ''list index out of range'')
      | img # _ \<Rightarrow>
          Inr \<lparr>generation_id = ''gen-abc123'',
               image_url = str_value (map_of img ''url''),
               base64_data = str_value (map_of img ''b64_json''),
               revised_prompt = str_value (map_of img ''revised_prompt''),
               file_path = None, image_data = None,
               created_at = int_value (raw_created raw)\<rparr>)"

text \<open>
  A provider that answers with one image url, a download that succeeds and a file
  system that accepts every call.
\<close>

definition cat_url :: string where
  "cat_url = ''https://images.example/cat.png''"

definition cat_bytes :: bytes where
  "cat_bytes = [137, 80, 78, 71]"

definition cat_result :: image_result where
  "cat_result =
     \<lparr>generation_id = ''gen-abc123'', image_url = Some cat_url, base64_data = None,
      revised_prompt = None, file_path = None, image_data = None, created_at = 1735732800\<rparr>"

text \<open>Options with every field set, as a caller may pass them.\<close>

definition baseline_options :: image_options where
  "baseline_options =
     \<lparr>model = ''dall-e-3'', size_opt = ''1024x1024'', response_format = ''url'',
      n_images = 1, quality = Some ''standard'', style = Some ''vivid''\<rparr>"

definition cat_world :: world where
  "cat_world =
     \<lparr>images_generate =
        (\<lambda>payload. Inr \<lparr>resp_created = Some (PInt 1735732800),
                         resp_data = [[(''url'', PStr cat_url), (''b64_json'', PNone),
                                       (''revised_prompt'', PNone)]]\<rparr>),
      parse = sample_parse,
      requests_get = (\<lambda>url timeout. Http_content cat_bytes),
      makedirs = (\<lambda>d. Fs_done),
      write_file = (\<lambda>path content. Fs_done),
      now = new_year_noon,
      default_model = ''dall-e-3'',
      default_size = ''1024x1024'',
      default_response_format = ''url'',
      default_n = 1,
      str_result = (\<lambda>r. ''ImageResult'')\<rparr>"

text \<open>The same environment with a provider that refuses the request.\<close>

definition refusing_world :: world where
  "refusing_world =
     cat_world\<lparr>images_generate :=
       (\<lambda>payload. Inl (APIError ''Request rejected by the Safety system''))\<rparr>"

text \<open>The same environment with a file system that refuses to create directories.\<close>

definition readonly_world :: world where
  "readonly_world = cat_world\<lparr>makedirs := (\<lambda>d. OSError ''Permission denied'')\<rparr>"

text \<open>The same environment with a provider that answers without any image.\<close>

definition no_image_world :: world where
  "no_image_world =
     cat_world\<lparr>images_generate :=
       (\<lambda>payload. Inr \<lparr>resp_created = Some (PInt 1735732800), resp_data = []\<rparr>)\<rparr>"

section \<open>Strings: substrings, case and whitespace\<close>

lemma str_in_iff: "str_in t s \<longleftrightarrow> (\<exists>ps ss. s = ps @ t @ ss)"
proof (induction s)
  case Nil
  then show ?case by auto
next
  case (Cons c cs)
  show ?case
  proof
    assume "str_in t (c # cs)"
    then consider "prefix t (c # cs)" | "str_in t cs" by auto
    then show "\<exists>ps ss. c # cs = ps @ t @ ss"
    proof cases
      case 1
      then obtain ss where "c # cs = t @ ss" by (auto simp: prefix_def)
      then have "c # cs = [] @ t @ ss" by simp
      then show ?thesis by blast
    next
      case 2
      with Cons.IH obtain ps ss where "cs = ps @ t @ ss" by blast
      then have "c # cs = (c # ps) @ t @ ss" by simp
      then show ?thesis by blast
    qed
  next
    assume "\<exists>ps ss. c # cs = ps @ t @ ss"
    then obtain ps ss where e: "c # cs = ps @ t @ ss" by blast
    show "str_in t (c # cs)"
    proof (cases ps)
      case Nil
      with e have "prefix t (c # cs)" by (simp add: prefix_def)
      then show ?thesis by simp
    next
      case (Cons p ps')
      with e have "cs = ps' @ t @ ss" by simp
      with Cons.IH have "str_in t cs" by blast
      then show ?thesis by simp
    qed
  qed
qed

lemma str_in_lower:
  "str_in t (lower s) \<longleftrightarrow> (\<exists>ps m ss. s = ps @ m @ ss \<and> lower m = t)"
proof
  assume "str_in t (lower s)"
  then obtain ps' ss' where "map lower_char s = ps' @ t @ ss'"
    by (auto simp: str_in_iff lower_def)
  then have "\<exists>ps r. s = ps @ r \<and> ps' = map lower_char ps \<and> t @ ss' = map lower_char r"
    by (simp only: map_eq_append_conv)
  then obtain ps r where s1: "s = ps @ r" and "map lower_char r = t @ ss'"
    by auto
  then have "\<exists>m ss. r = m @ ss \<and> t = map lower_char m \<and> ss' = map lower_char ss"
    by (simp only: map_eq_append_conv)
  then obtain m ss where "r = m @ ss" and "map lower_char m = t"
    by auto
  with s1 have "s = ps @ m @ ss \<and> lower m = t" by (simp add: lower_def)
  then show "\<exists>ps m ss. s = ps @ m @ ss \<and> lower m = t" by blast
next
  assume "\<exists>ps m ss. s = ps @ m @ ss \<and> lower m = t"
  then obtain ps m ss where "s = ps @ m @ ss" and "lower m = t" by blast
  then have "lower s = lower ps @ t @ lower ss" by (auto simp: lower_def)
  then show "str_in t (lower s)" unfolding str_in_iff by blast
qed

lemma str_in_lower_term:
  "lower t = t \<Longrightarrow> str_in t (lower s) \<longleftrightarrow> contains_ignoring_case t s"
  by (simp add: str_in_lower contains_ignoring_case_def)

lemma dropWhile_all: "(\<forall>x\<in>set (dropWhile P s). P x) \<longleftrightarrow> (\<forall>x\<in>set s. P x)"
proof
  assume a: "\<forall>x\<in>set (dropWhile P s). P x"
  have "dropWhile P s = []"
  proof (rule ccontr)
    assume n: "dropWhile P s \<noteq> []"
    then have "\<not> P (hd (dropWhile P s))" by (rule hd_dropWhile)
    moreover from n have "hd (dropWhile P s) \<in> set (dropWhile P s)" by simp
    ultimately show False using a by blast
  qed
  then show "\<forall>x\<in>set s. P x" by (simp add: dropWhile_eq_Nil_conv)
next
  assume "\<forall>x\<in>set s. P x"
  then show "\<forall>x\<in>set (dropWhile P s). P x" by (auto dest: set_dropWhileD)
qed

lemma strip_empty: "strip s = [] \<longleftrightarrow> list_all isspace s"
  by (simp add: strip_def dropWhile_eq_Nil_conv list_all_iff dropWhile_all)

lemma terms_lower:
  "lower ''violence'' = ''violence''" "lower ''gore'' = ''gore''" "lower ''explicit'' = ''explicit''"
  "lower ''content policy'' = ''content policy''" "lower ''safety'' = ''safety''"
  by code_simp+

lemma validate_prompt_iff:
  "validate_prompt prompt \<longleftrightarrow>
     \<not> (list_all isspace prompt \<or> length prompt > 4000
        \<or> (\<exists>t\<in>set problematic_terms. contains_ignoring_case t prompt))"
proof -
  have "list_ex (\<lambda>t. str_in t (lower prompt)) problematic_terms
        \<longleftrightarrow> (\<exists>t\<in>set problematic_terms. contains_ignoring_case t prompt)"
    by (simp add: problematic_terms_def str_in_lower_term terms_lower)
  moreover have "prompt = [] \<Longrightarrow> list_all isspace prompt" by simp
  ultimately show ?thesis
    by (auto simp: validate_prompt_def Let_def strip_empty)
qed

section \<open>Prompt validation\<close>

text \<open>
  C3. \<open>validate_prompt\<close> is false exactly when the prompt is empty or consists of
  whitespace only, or is longer than 4000 characters, or contains one of the
  denylisted terms when case is ignored. On every such prompt
  \<open>ImageGenerationService.generate_image\<close> raises \<open>ValueError\<close>, the
  input-validation failure, and has made no call at all by then: neither the
  provider nor any download has been reached.
\<close>

theorem validate_prompt_rejects:
  "(\<not> validate_prompt prompt \<longleftrightarrow>
      list_all isspace prompt \<or> length prompt > 4000
      \<or> (\<exists>t\<in>set problematic_terms. contains_ignoring_case t prompt))
   \<and> (\<not> validate_prompt prompt \<longrightarrow>
        generate_image w prompt options auto_save save_dir =
          (Inl (ValueError ''Invalid prompt: must be non-empty and under 4000 characters''), []))"
  by (simp add: validate_prompt_iff generate_image_def)

theorem validate_prompt_rejects_witness:
  "list_all isspace ''   '' \<and> \<not> validate_prompt ''   ''
   \<and> generate_image cat_world ''   '' None True ''generated_images'' =
       (Inl (ValueError ''Invalid prompt: must be non-empty and under 4000 characters''), [])"
  using validate_prompt_rejects [of "''   ''" cat_world None True "''generated_images''"]
  by (simp add: isspace_def ord_def)

section \<open>The transport client: error mapping\<close>

lemma map_provider_error_code:
  "code (map_provider_error failure) =
     (case failure of
        AuthenticationError e \<Rightarrow> ''AUTHENTICATION_ERROR''
      | RateLimitError e \<Rightarrow> ''RATE_LIMIT_ERROR''
      | APIError e \<Rightarrow>
          if contains_ignoring_case ''content policy'' e \<or> contains_ignoring_case ''safety'' e
          then ''CONTENT_POLICY_ERROR'' else ''API_ERROR''
      | UnexpectedError e \<Rightarrow> ''UNKNOWN_ERROR'')"
  by (cases failure) (simp_all add: Let_def str_in_lower_term terms_lower)

lemma map_provider_error_details:
  "details (map_provider_error failure) = [(''original_error'', failure_text failure)]"
  by (cases failure) (simp_all add: Let_def)

lemma safety_occurs:
  "contains_ignoring_case ''safety'' ''Request rejected by the Safety system''"
proof -
  have "str_in ''safety'' (lower ''Request rejected by the Safety system'')" by code_simp
  then show ?thesis by (simp add: str_in_lower_term terms_lower)
qed

lemma strip_cat: "strip ''A space cat'' \<noteq> []"
  by code_simp

text \<open>
  C4. When the SDK call fails, \<open>ImageGenerationClient.generate_image\<close> raises an
  \<open>ImageError\<close> whose code follows the order of the handlers: an authentication
  failure gives \<open>AUTHENTICATION_ERROR\<close>, a rate-limit failure \<open>RATE_LIMIT_ERROR\<close>, any
  other API failure \<open>CONTENT_POLICY_ERROR\<close> when its text contains "content policy" or
  "safety" with case ignored and \<open>API_ERROR\<close> otherwise, and any other exception
  \<open>UNKNOWN_ERROR\<close>. The details of the error hold the text of the original failure.
\<close>

theorem client_error_mapping:
  assumes "strip prompt \<noteq> []" and "length prompt \<le> 4000"
    and "images_generate w (construct_payload prompt (or_default w options)) = Inl failure"
  shows "\<exists>err. client_generate_image w prompt options =
            (Inl (ImageError err), [ProviderCall (construct_payload prompt (or_default w options))])
          \<and> code err =
              (case failure of
                 AuthenticationError e \<Rightarrow> ''AUTHENTICATION_ERROR''
               | RateLimitError e \<Rightarrow> ''RATE_LIMIT_ERROR''
               | APIError e \<Rightarrow>
                   if contains_ignoring_case ''content policy'' e
                      \<or> contains_ignoring_case ''safety'' e
                   then ''CONTENT_POLICY_ERROR'' else ''API_ERROR''
               | UnexpectedError e \<Rightarrow> ''UNKNOWN_ERROR'')
          \<and> details err = [(''original_error'', failure_text failure)]"
proof -
  from assms(1) have "prompt \<noteq> []" by (auto simp: strip_def)
  with assms have "client_generate_image w prompt options =
      (Inl (ImageError (map_provider_error failure)),
       [ProviderCall (construct_payload prompt (or_default w options))])"
    by (simp add: client_generate_image_def Let_def)
  then show ?thesis
    using map_provider_error_code [of failure] map_provider_error_details [of failure] by blast
qed

theorem client_error_mapping_witness:
  "\<exists>err. client_generate_image refusing_world ''A space cat'' None =
            (Inl (ImageError err),
             [ProviderCall (construct_payload ''A space cat'' (or_default refusing_world None))])
         \<and> code err = ''CONTENT_POLICY_ERROR''
         \<and> details err = [(''original_error'', ''Request rejected by the Safety system'')]"
  using client_error_mapping [of "''A space cat''" refusing_world None
      "APIError ''Request rejected by the Safety system''"] safety_occurs strip_cat
  by (simp add: refusing_world_def)

section \<open>The transport client: payload\<close>

lemma map_of_dict_set: "map_of (dict_set d k v) k' = (if k' = k then Some v else map_of d k')"
  by (induction d) auto

lemma has_key_dict_set: "has_key (dict_set d k v) k' \<longleftrightarrow> k' = k \<or> has_key d k'"
  by (simp add: has_key_def map_of_dict_set)

lemma construct_payload_quality:
  "has_key (construct_payload prompt options) ''quality''
     \<longleftrightarrow> model options = ''dall-e-3'' \<and> truthy (quality options)"
  by (simp add: construct_payload_def Let_def truthy_def has_key_dict_set
      split: option.splits) (simp add: has_key_def)

lemma construct_payload_style:
  "has_key (construct_payload prompt options) ''style''
     \<longleftrightarrow> model options = ''dall-e-3'' \<and> truthy (style options)"
  by (simp add: construct_payload_def Let_def truthy_def has_key_dict_set
      split: option.splits) (simp add: has_key_def)

text \<open>
  C5. The payload has the key \<open>quality\<close> exactly when the model is \<open>dall-e-3\<close> and the
  quality field is set to a non-empty value, and likewise for \<open>style\<close>. For any other
  model the payload has neither key, whatever the two fields hold.
\<close>

theorem payload_quality_style:
  "(has_key (construct_payload prompt options) ''quality''
      \<longleftrightarrow> model options = ''dall-e-3'' \<and> truthy (quality options))
   \<and> (has_key (construct_payload prompt options) ''style''
      \<longleftrightarrow> model options = ''dall-e-3'' \<and> truthy (style options))
   \<and> (model options \<noteq> ''dall-e-3'' \<longrightarrow>
        \<not> has_key (construct_payload prompt options) ''quality''
        \<and> \<not> has_key (construct_payload prompt options) ''style'')"
  by (simp add: construct_payload_quality construct_payload_style)

theorem payload_quality_style_witness:
  "model (baseline_options\<lparr>model := ''dall-e-2''\<rparr>) \<noteq> ''dall-e-3''
   \<and> truthy (quality (baseline_options\<lparr>model := ''dall-e-2''\<rparr>))
   \<and> truthy (style (baseline_options\<lparr>model := ''dall-e-2''\<rparr>))
   \<and> \<not> has_key (construct_payload ''A space cat'' (baseline_options\<lparr>model := ''dall-e-2''\<rparr>)) ''quality''
   \<and> \<not> has_key (construct_payload ''A space cat'' (baseline_options\<lparr>model := ''dall-e-2''\<rparr>)) ''style''"
  using payload_quality_style [of "''A space cat''" "baseline_options\<lparr>model := ''dall-e-2''\<rparr>"]
  by (simp add: baseline_options_def truthy_def)

section \<open>Options for a quality level\<close>



section \<open>Download and save\<close>

lemma download_no_url:
  "\<not> truthy (image_url result) \<Longrightarrow>
     download_and_save_image w result save_path = no_image_url w result"
  by (auto simp: download_and_save_image_def truthy_def split: option.splits)

lemma download_with_url:
  "image_url result = Some url \<Longrightarrow> url \<noteq> [] \<Longrightarrow>
     download_and_save_image w result save_path =
       (case requests_get w url 30 of
          RequestFailure e \<Rightarrow>
            \<lparr>raised = Some (download_error url e), result_after = result,
             calls = [HttpGet url 30]\<rparr>
        | HTTPError e \<Rightarrow>
            \<lparr>raised = Some (download_error url e), result_after = result,
             calls = [HttpGet url 30]\<rparr>
        | Http_oserror e \<Rightarrow>
            \<lparr>raised = Some (save_error save_path e), result_after = result,
             calls = [HttpGet url 30]\<rparr>
        | Http_exception e \<Rightarrow>
            \<lparr>raised = Some (OtherException e), result_after = result,
             calls = [HttpGet url 30]\<rparr>
        | Http_content content \<Rightarrow>
            save_to_file w (result\<lparr>image_data := Some content\<rparr>) save_path content
              [HttpGet url 30])"
  by (simp add: download_and_save_image_def)

lemma save_to_file_result:
  "result_after (save_to_file w result save_path content cs) =
     (if raised (save_to_file w result save_path content cs) = None
      then result\<lparr>file_path := Some save_path\<rparr> else result)"
  by (simp add: save_to_file_def Let_def split: fs_outcome.splits)

lemma save_to_file_raised:
  "raised (save_to_file w result save_path content cs) = Some x \<Longrightarrow>
     (\<exists>e. x = save_error save_path e) \<or> (\<exists>e. x = OtherException e)"
  by (auto simp: save_to_file_def Let_def split: fs_outcome.splits)

text \<open>
  C7. \<open>download_and_save_image\<close> raises \<open>DOWNLOAD_ERROR\<close> and makes no call at all
  when the result has no image url. With a url, it raises \<open>DOWNLOAD_ERROR\<close> when the
  request fails or the status is rejected; when the download succeeds it raises
  \<open>SAVE_ERROR\<close>, a code other than \<open>DOWNLOAD_ERROR\<close>, on an \<open>OSError\<close> from creating
  the parent directory or from writing the file; and when every step succeeds it
  returns the object it was given with the downloaded bytes in \<open>image_data\<close> and the
  path in \<open>file_path\<close>.
\<close>

theorem download_and_save_image_outcomes:
  "(\<not> truthy (image_url result) \<longrightarrow>
      (\<exists>e. raised (download_and_save_image w result save_path) = Some (ImageError e)
           \<and> code e = ''DOWNLOAD_ERROR'')
      \<and> calls (download_and_save_image w result save_path) = [])
   \<and> (image_url result = Some url \<and> url \<noteq> [] \<longrightarrow>
        (requests_get w url 30 = HTTPError msg \<or> requests_get w url 30 = RequestFailure msg \<longrightarrow>
           (\<exists>e. raised (download_and_save_image w result save_path) = Some (ImageError e)
                \<and> code e = ''DOWNLOAD_ERROR''))
        \<and> (requests_get w url 30 = Http_content content \<longrightarrow>
             (makedirs w (dirname save_path) = OSError msg
              \<or> makedirs w (dirname save_path) = Fs_done
                 \<and> write_file w save_path content = OSError msg \<longrightarrow>
                (\<exists>e. raised (download_and_save_image w result save_path) = Some (ImageError e)
                     \<and> code e = ''SAVE_ERROR'' \<and> code e \<noteq> ''DOWNLOAD_ERROR''))
             \<and> (makedirs w (dirname save_path) = Fs_done
                 \<and> write_file w save_path content = Fs_done \<longrightarrow>
                  raised (download_and_save_image w result save_path) = None
                  \<and> result_after (download_and_save_image w result save_path) =
                      result\<lparr>image_data := Some content, file_path := Some save_path\<rparr>)))"
  by (auto simp: download_no_url download_with_url no_image_url_def download_error_def
      save_to_file_def save_error_def Let_def)

theorem download_and_save_image_outcomes_witness:
  "image_url cat_result = Some cat_url \<and> cat_url \<noteq> []
   \<and> requests_get cat_world cat_url 30 = Http_content cat_bytes
   \<and> makedirs cat_world (dirname ''out/cat.png'') = Fs_done
   \<and> write_file cat_world ''out/cat.png'' cat_bytes = Fs_done
   \<and> raised (download_and_save_image cat_world cat_result ''out/cat.png'') = None
   \<and> result_after (download_and_save_image cat_world cat_result ''out/cat.png'') =
       cat_result\<lparr>image_data := Some cat_bytes, file_path := Some ''out/cat.png''\<rparr>"
  using download_and_save_image_outcomes
    [of cat_result cat_world "''out/cat.png''" cat_url "''''" cat_bytes]
  by (simp add: cat_world_def cat_result_def cat_url_def)

text \<open>
  C10. When the download has succeeded and \<open>download_and_save_image\<close> raises
  \<open>SAVE_ERROR\<close>, creating the directory or writing the file has failed, and the
  object passed in has already been changed: \<open>image_data\<close> holds the downloaded
  bytes, \<open>file_path\<close> is what it was before the call, and no other field differs.
\<close>

theorem save_error_after_mutation:
  assumes "image_url result = Some url"
    and "requests_get w url 30 = Http_content content"
    and "raised (download_and_save_image w result save_path) = Some (ImageError e)"
    and "code e = ''SAVE_ERROR''"
  shows "(\<exists>msg. makedirs w (dirname save_path) = OSError msg
             \<or> write_file w save_path content = OSError msg)
         \<and> result_after (download_and_save_image w result save_path) =
             result\<lparr>image_data := Some content\<rparr>
         \<and> image_data (result_after (download_and_save_image w result save_path)) = Some content
         \<and> file_path (result_after (download_and_save_image w result save_path)) = file_path result"
proof (cases "url = []")
  case True
  with assms show ?thesis
    by (auto simp: download_and_save_image_def no_image_url_def)
next
  case False
  with assms(1,2) have d: "download_and_save_image w result save_path =
      save_to_file w (result\<lparr>image_data := Some content\<rparr>) save_path content [HttpGet url 30]"
    by (simp add: download_with_url)
  with assms(3) have r: "result_after (download_and_save_image w result save_path) =
      result\<lparr>image_data := Some content\<rparr>"
    by (simp add: save_to_file_result)
  from assms(3) d have "\<exists>msg. makedirs w (dirname save_path) = OSError msg
      \<or> write_file w save_path content = OSError msg"
    by (auto simp: save_to_file_def Let_def split: fs_outcome.splits)
  with r show ?thesis by simp
qed

theorem save_error_after_mutation_witness:
  "image_url cat_result = Some cat_url
   \<and> requests_get readonly_world cat_url 30 = Http_content cat_bytes
   \<and> raised (download_and_save_image readonly_world cat_result ''out/cat.png'') =
       Some (save_error ''out/cat.png'' ''Permission denied'')
   \<and> image_data (result_after (download_and_save_image readonly_world cat_result ''out/cat.png''))
       = Some cat_bytes
   \<and> file_path (result_after (download_and_save_image readonly_world cat_result ''out/cat.png''))
       = None"
proof -
  have u: "image_url cat_result = Some cat_url"
    by (simp add: cat_result_def)
  have g: "requests_get readonly_world cat_url 30 = Http_content cat_bytes"
    by (simp add: readonly_world_def cat_world_def)
  have r: "raised (download_and_save_image readonly_world cat_result ''out/cat.png'') =
      Some (ImageError \<lparr>code = ''SAVE_ERROR'',
              message = ''Failed to save image: Permission denied'',
              details = [(''save_path'', ''out/cat.png''), (''error'', ''Permission denied'')]\<rparr>)"
    by (simp add: download_and_save_image_def save_to_file_def readonly_world_def cat_world_def
        cat_result_def cat_url_def save_error_def Let_def)
  from save_error_after_mutation [OF u g r] u g r show ?thesis
    by (simp add: save_error_def cat_result_def)
qed

section \<open>What the service returns\<close>

lemma download_keeps_payload:
  "image_url (result_after (download_and_save_image w result save_path)) = image_url result
   \<and> base64_data (result_after (download_and_save_image w result save_path)) = base64_data result
   \<and> generation_id (result_after (download_and_save_image w result save_path)) = generation_id result"
  by (simp add: download_and_save_image_def no_image_url_def save_to_file_def Let_def
      split: option.splits http_outcome.splits fs_outcome.splits)

lemma client_generate_image_cases:
  "client_generate_image w prompt options = (Inr raw, cs) \<Longrightarrow>
     \<exists>response. images_generate w (construct_payload prompt (or_default w options)) = Inr response
       \<and> raw = response_to_dict response
       \<and> cs = [ProviderCall (construct_payload prompt (or_default w options))]"
  by (auto simp: client_generate_image_def Let_def split: if_splits sum.splits)

lemma generate_image_try_returns:
  assumes "generate_image_try w prompt opts auto_save save_dir = (Inr r, cs)"
  shows "\<exists>response parsed.
           images_generate w (construct_payload prompt opts) = Inr response
           \<and> parse w (response_to_dict response) prompt = Inr parsed
           \<and> image_url r = image_url parsed \<and> base64_data r = base64_data parsed"
proof -
  from assms obtain raw cs0 where c: "client_generate_image w prompt (Some opts) = (Inr raw, cs0)"
    by (auto simp: generate_image_try_def split: prod.splits sum.splits)
  then obtain response where
    p: "images_generate w (construct_payload prompt opts) = Inr response"
    and raw: "raw = response_to_dict response"
    using client_generate_image_cases [OF c] by (auto simp: or_default_def)
  from assms c obtain parsed where q: "parse w raw prompt = Inr parsed"
    by (auto simp: generate_image_try_def split: sum.splits)
  from assms c q have "image_url r = image_url parsed \<and> base64_data r = base64_data parsed"
    by (auto simp: generate_image_try_def Let_def returned_def download_keeps_payload
        split: if_splits option.splits)
  with p q raw show ?thesis by blast
qed

lemma generate_image_returns:
  assumes "generate_image w prompt options auto_save save_dir = (Inr r, cs)"
  shows "generate_image_try w prompt (or_default w options) auto_save save_dir = (Inr r, cs)"
  using assms
  by (auto simp: generate_image_def Let_def split: if_splits prod.splits sum.splits)

subsection \<open>The returned result\<close>

text \<open>
  A result returned by \<open>ImageGenerationService.generate_image\<close> is the result the
  parser built from the provider's response, with the same image url and the same
  base64 payload: the service checks neither field.
\<close>

lemma generate_image_returns_parsed_payload:
  assumes "generate_image w prompt options auto_save save_dir = (Inr r, cs)"
  shows "\<exists>response parsed.
           images_generate w (construct_payload prompt (or_default w options)) = Inr response
           \<and> parse w (response_to_dict response) prompt = Inr parsed
           \<and> image_url r = image_url parsed \<and> base64_data r = base64_data parsed
           \<and> (populated r \<longleftrightarrow> populated parsed)"
proof -
  from generate_image_try_returns [OF generate_image_returns [OF assms]]
  show ?thesis by (auto simp: populated_def)
qed

subsection \<open>Runs in the sample environments\<close>

lemma valid_cat: "validate_prompt ''A space cat''"
  by code_simp

lemma cat_world_fields:
  "images_generate cat_world payload =
     Inr \<lparr>resp_created = Some (PInt 1735732800),
          resp_data = [[(''url'', PStr cat_url), (''b64_json'', PNone),
                        (''revised_prompt'', PNone)]]\<rparr>"
  "parse cat_world = sample_parse"
  "requests_get cat_world url timeout = Http_content cat_bytes"
  "makedirs cat_world d = Fs_done"
  "write_file cat_world path content = Fs_done"
  "now cat_world = new_year_noon"
  by (simp_all add: cat_world_def)

lemma cat_defaults:
  "default_options cat_world =
     \<lparr>model = ''dall-e-3'', size_opt = ''1024x1024'', response_format = ''url'',
      n_images = 1, quality = None, style = None\<rparr>"
  by (simp add: default_options_def image_options_init_def cat_world_def)

lemma cat_filename:
  "generate_safe_filename new_year_noon ''A space cat'' ''gen-abc123'' =
     ''a_space_cat_20250101_120000_gen-abc123.png''"
  by code_simp

lemma cat_paths:
  "path_join ''generated_images'' ''a_space_cat_20250101_120000_gen-abc123.png'' =
     ''generated_images/a_space_cat_20250101_120000_gen-abc123.png''"
  "dirname ''generated_images/a_space_cat_20250101_120000_gen-abc123.png'' = ''generated_images''"
  "dirname ''out/cat.png'' = ''out''"
  by code_simp+

lemma cat_result_fields:
  "generation_id cat_result = ''gen-abc123''"
  "image_url cat_result = Some cat_url"
  "cat_url \<noteq> []"
  "truthy (image_url cat_result)"
  by (simp_all add: cat_result_def cat_url_def truthy_def)

lemma cat_parse:
  "sample_parse
     (response_to_dict \<lparr>resp_created = Some (PInt 1735732800),
        resp_data = [[(''url'', PStr cat_url), (''b64_json'', PNone),
                      (''revised_prompt'', PNone)]]\<rparr>) prompt = Inr cat_result"
  by (simp add: sample_parse_def response_to_dict_def image_to_dict_def str_value_def
      int_value_def cat_result_def)

lemma cat_download:
  "download_and_save_image cat_world cat_result
     ''generated_images/a_space_cat_20250101_120000_gen-abc123.png'' =
     \<lparr>raised = None,
      result_after = cat_result\<lparr>image_data := Some cat_bytes,
        file_path := Some ''generated_images/a_space_cat_20250101_120000_gen-abc123.png''\<rparr>,
      calls = [HttpGet cat_url 30, MakeDirs ''generated_images'',
        WriteFile ''generated_images/a_space_cat_20250101_120000_gen-abc123.png'' cat_bytes]\<rparr>"
  by (simp add: download_with_url [OF cat_result_fields(2) cat_result_fields(3)]
      save_to_file_def cat_paths Let_def cat_world_fields)

lemma cat_try:
  "generate_image_try cat_world ''A space cat'' (default_options cat_world) True
     ''generated_images'' =
     (Inr (cat_result\<lparr>image_data := Some cat_bytes,
             file_path := Some ''generated_images/a_space_cat_20250101_120000_gen-abc123.png''\<rparr>),
      [ProviderCall (construct_payload ''A space cat'' (default_options cat_world)),
       HttpGet cat_url 30,
       MakeDirs ''generated_images'',
       WriteFile ''generated_images/a_space_cat_20250101_120000_gen-abc123.png'' cat_bytes])"
  by (simp add: generate_image_try_def client_generate_image_def strip_cat or_default_def
      Let_def cat_world_fields cat_parse cat_result_fields cat_filename cat_paths cat_download
      returned_def truthy_def)

lemma cat_run:
  "generate_image cat_world ''A space cat'' None True ''generated_images'' =
     (Inr (cat_result\<lparr>image_data := Some cat_bytes,
             file_path := Some ''generated_images/a_space_cat_20250101_120000_gen-abc123.png''\<rparr>),
      [ProviderCall (construct_payload ''A space cat'' (default_options cat_world)),
       HttpGet cat_url 30,
       MakeDirs ''generated_images'',
       WriteFile ''generated_images/a_space_cat_20250101_120000_gen-abc123.png'' cat_bytes])"
  by (simp add: generate_image_def valid_cat Let_def or_default_def cat_try)

lemma generate_and_save_run:
  "generate_and_save cat_world ''A space cat'' ''out/cat.png'' None =
     (Inr (cat_result\<lparr>image_data := Some cat_bytes, file_path := Some ''out/cat.png''\<rparr>),
      [ProviderCall (construct_payload ''A space cat'' (default_options cat_world)),
       HttpGet cat_url 30,
       MakeDirs ''generated_images'',
       WriteFile ''generated_images/a_space_cat_20250101_120000_gen-abc123.png'' cat_bytes,
       HttpGet cat_url 30,
       MakeDirs ''out'',
       WriteFile ''out/cat.png'' cat_bytes])"
proof -
  have u: "image_url (cat_result\<lparr>image_data := Some cat_bytes,
             file_path := Some ''generated_images/a_space_cat_20250101_120000_gen-abc123.png''\<rparr>)
           = Some cat_url" "cat_url \<noteq> []"
    by (simp_all add: cat_result_def cat_url_def)
  have d: "download_and_save_image cat_world
      (cat_result\<lparr>image_data := Some cat_bytes,
         file_path := Some ''generated_images/a_space_cat_20250101_120000_gen-abc123.png''\<rparr>)
      ''out/cat.png'' =
      \<lparr>raised = None,
       result_after = cat_result\<lparr>image_data := Some cat_bytes, file_path := Some ''out/cat.png''\<rparr>,
       calls = [HttpGet cat_url 30, MakeDirs ''out'', WriteFile ''out/cat.png'' cat_bytes]\<rparr>"
    by (simp add: download_with_url [OF u] save_to_file_def cat_paths Let_def cat_world_fields)
  show ?thesis
    by (simp add: generate_and_save_def cat_run d returned_def Let_def)
qed

section \<open>Generate and save\<close>

text \<open>
  C1. With a provider that answers with a url and a download that succeeds,
  \<open>generate_and_save\<close> downloads the image twice and writes two files: the call of
  \<open>generate_image\<close> inside it has already saved the image under \<open>generated_images\<close>
  before the download to the path given.
\<close>

theorem generate_and_save_downloads_twice:
  "filter is_download (snd (generate_and_save cat_world ''A space cat'' ''out/cat.png'' None)) =
     [HttpGet cat_url 30, HttpGet cat_url 30]
   \<and> filter is_write (snd (generate_and_save cat_world ''A space cat'' ''out/cat.png'' None)) =
     [WriteFile ''generated_images/a_space_cat_20250101_120000_gen-abc123.png'' cat_bytes,
      WriteFile ''out/cat.png'' cat_bytes]"
  by (simp add: generate_and_save_run)

section \<open>Failures inside the service\<close>

lemma generate_image_after_validation:
  "validate_prompt prompt \<Longrightarrow>
     generate_image w prompt options auto_save save_dir =
       (case generate_image_try w prompt (or_default w options) auto_save save_dir of
          (Inl e, cs) \<Rightarrow> (Inl (generate_image_except e), cs)
        | (Inr result, cs) \<Rightarrow> (Inr result, cs))"
  by (simp add: generate_image_def Let_def)

lemma client_call:
  "validate_prompt prompt \<Longrightarrow>
     client_generate_image w prompt (Some opts) =
       (case images_generate w (construct_payload prompt opts) of
          Inr response \<Rightarrow> Inr (response_to_dict response)
        | Inl e \<Rightarrow> Inl (ImageError (map_provider_error e)),
        [ProviderCall (construct_payload prompt opts)])"
  by (auto simp: client_generate_image_def validate_prompt_def or_default_def Let_def
      split: if_splits)

lemma try_provider_failure:
  assumes "validate_prompt prompt"
    and "images_generate w (construct_payload prompt opts) = Inl failure"
  shows "generate_image_try w prompt opts auto_save save_dir =
     (Inl (ImageError (map_provider_error failure)), [ProviderCall (construct_payload prompt opts)])"
  using assms by (simp add: generate_image_try_def client_call)

lemma try_parser_failure:
  assumes "validate_prompt prompt"
    and "images_generate w (construct_payload prompt opts) = Inr response"
    and "parse w (response_to_dict response) prompt = Inl x"
  shows "generate_image_try w prompt opts auto_save save_dir =
     (Inl x, [ProviderCall (construct_payload prompt opts)])"
  using assms by (simp add: generate_image_try_def client_call)

lemma try_download:
  assumes "validate_prompt prompt"
    and "images_generate w (construct_payload prompt opts) = Inr response"
    and "parse w (response_to_dict response) prompt = Inr parsed"
    and "truthy (image_url parsed)"
  shows "generate_image_try w prompt opts True save_dir =
     (returned (download_and_save_image w parsed (auto_save_path w save_dir prompt parsed)),
      [ProviderCall (construct_payload prompt opts)]
      @ calls (download_and_save_image w parsed (auto_save_path w save_dir prompt parsed)))"
  using assms by (simp add: generate_image_try_def client_call Let_def auto_save_path_def)

lemma generate_image_provider_failure:
  assumes "validate_prompt prompt"
    and "images_generate w (construct_payload prompt (or_default w options)) = Inl failure"
  shows "generate_image w prompt options auto_save save_dir =
     (Inl (ImageError (map_provider_error failure)),
      [ProviderCall (construct_payload prompt (or_default w options))])"
  using assms by (simp add: generate_image_after_validation try_provider_failure)

lemma generate_image_parser_failure:
  assumes "validate_prompt prompt"
    and "images_generate w (construct_payload prompt (or_default w options)) = Inr response"
    and "parse w (response_to_dict response) prompt = Inl x"
  shows "generate_image w prompt options auto_save save_dir =
     (Inl (generate_image_except x),
      [ProviderCall (construct_payload prompt (or_default w options))])"
  using assms by (simp add: generate_image_after_validation try_parser_failure)

lemma generate_image_download_failure:
  assumes "validate_prompt prompt"
    and "images_generate w (construct_payload prompt (or_default w options)) = Inr response"
    and "parse w (response_to_dict response) prompt = Inr parsed"
    and "truthy (image_url parsed)"
    and "raised (download_and_save_image w parsed (auto_save_path w save_dir prompt parsed))
           = Some x"
  shows "fst (generate_image w prompt options True save_dir) = Inl (generate_image_except x)"
  using assms by (simp add: generate_image_after_validation try_download returned_def)

lemma download_raised:
  assumes "image_url parsed = Some url" and "url \<noteq> []"
  shows "requests_get w url 30 = HTTPError msg \<or> requests_get w url 30 = RequestFailure msg \<Longrightarrow>
           raised (download_and_save_image w parsed path) = Some (download_error url msg)"
    and "requests_get w url 30 = Http_exception msg \<Longrightarrow>
           raised (download_and_save_image w parsed path) = Some (OtherException msg)"
    and "requests_get w url 30 = Http_content content \<Longrightarrow>
           makedirs w (dirname path) = OSError msg
           \<or> makedirs w (dirname path) = Fs_done \<and> write_file w path content = OSError msg \<Longrightarrow>
           raised (download_and_save_image w parsed path) = Some (save_error path msg)"
    and "requests_get w url 30 = Http_content content \<Longrightarrow>
           makedirs w (dirname path) = Fs_exception msg
           \<or> makedirs w (dirname path) = Fs_done \<and> write_file w path content = Fs_exception msg \<Longrightarrow>
           raised (download_and_save_image w parsed path) = Some (OtherException msg)"
  using assms by (auto simp: download_with_url save_to_file_def Let_def)

lemma generate_image_raises_image_error:
  assumes "validate_prompt prompt"
    and "fst (generate_image w prompt options auto_save save_dir) = Inl x"
  shows "\<exists>err. x = ImageError err"
proof -
  from assms obtain y where "x = generate_image_except y"
    by (auto simp: generate_image_def Let_def split: prod.splits sum.splits)
  then show ?thesis by (cases y) (simp_all add: generation_failed_def)
qed

subsection \<open>Failing runs in the sample environments\<close>

lemma readonly_world_fields:
  "images_generate readonly_world payload =
     Inr \<lparr>resp_created = Some (PInt 1735732800),
          resp_data = [[(''url'', PStr cat_url), (''b64_json'', PNone),
                        (''revised_prompt'', PNone)]]\<rparr>"
  "parse readonly_world = sample_parse"
  "requests_get readonly_world url timeout = Http_content cat_bytes"
  "makedirs readonly_world d = OSError ''Permission denied''"
  "now readonly_world = new_year_noon"
  by (simp_all add: readonly_world_def cat_world_def)

lemma readonly_auto_save_path:
  "auto_save_path readonly_world ''generated_images'' ''A space cat'' cat_result =
     ''generated_images/a_space_cat_20250101_120000_gen-abc123.png''"
  by (simp add: auto_save_path_def readonly_world_fields cat_result_fields cat_filename cat_paths)

lemma no_image_world_fields:
  "images_generate no_image_world payload =
     Inr \<lparr>resp_created = Some (PInt 1735732800), resp_data = []\<rparr>"
  "parse no_image_world = sample_parse"
  by (simp_all add: no_image_world_def cat_world_def)

lemma no_image_parse:
  "sample_parse (response_to_dict \<lparr>resp_created = Some (PInt 1735732800), resp_data = []\<rparr>)
     prompt = Inl (OtherException ''list index out of range'')"
  by (simp add: sample_parse_def response_to_dict_def)

subsection \<open>Propagation\<close>

text \<open>
  C8. After validation, every failure inside \<open>ImageGenerationService.generate_image\<close>
  reaches the caller as an \<open>ImageError\<close>. The error that the client raises for a
  failure of the provider, an \<open>ImageError\<close> raised by the parser and an \<open>ImageError\<close>
  raised by the download step (\<open>DOWNLOAD_ERROR\<close> for a failed request or a rejected
  status, \<open>SAVE_ERROR\<close> for an \<open>OSError\<close> of the file system) reach the caller as they
  are, with the same code, message and details. Any other exception of the parser or
  of the download step reaches the caller as an \<open>ImageError\<close> with code
  \<open>GENERATION_FAILED\<close> whose message ends with the original text and whose details
  hold it.
\<close>

theorem generate_image_error_propagation:
  assumes "validate_prompt prompt"
  shows "(images_generate w (construct_payload prompt (or_default w options)) = Inl failure \<longrightarrow>
            generate_image w prompt options auto_save save_dir =
              (Inl (ImageError (map_provider_error failure)),
               [ProviderCall (construct_payload prompt (or_default w options))]))
   \<and> (images_generate w (construct_payload prompt (or_default w options)) = Inr response \<longrightarrow>
        (parse w (response_to_dict response) prompt = Inl (ImageError e) \<longrightarrow>
           generate_image w prompt options auto_save save_dir =
             (Inl (ImageError e),
              [ProviderCall (construct_payload prompt (or_default w options))]))
        \<and> (parse w (response_to_dict response) prompt = Inl (ValueError m)
            \<or> parse w (response_to_dict response) prompt = Inl (OtherException m) \<longrightarrow>
           generate_image w prompt options auto_save save_dir =
             (Inl (ImageError \<lparr>code = ''GENERATION_FAILED'',
                     message = ''Image generation failed: '' @ m,
                     details = [(''original_error'', m)]\<rparr>),
              [ProviderCall (construct_payload prompt (or_default w options))]))
        \<and> (parse w (response_to_dict response) prompt = Inr parsed
            \<and> truthy (image_url parsed) \<longrightarrow>
           (raised (download_and_save_image w parsed (auto_save_path w save_dir prompt parsed))
              = Some (ImageError e) \<longrightarrow>
            fst (generate_image w prompt options True save_dir) = Inl (ImageError e))
           \<and> (raised (download_and_save_image w parsed (auto_save_path w save_dir prompt parsed))
                 = Some (ValueError m)
               \<or> raised (download_and_save_image w parsed (auto_save_path w save_dir prompt parsed))
                 = Some (OtherException m) \<longrightarrow>
               fst (generate_image w prompt options True save_dir) =
                 Inl (ImageError \<lparr>code = ''GENERATION_FAILED'',
                        message = ''Image generation failed: '' @ m,
                        details = [(''original_error'', m)]\<rparr>)))
        \<and> (parse w (response_to_dict response) prompt = Inr parsed
            \<and> image_url parsed = Some url \<and> url \<noteq> [] \<longrightarrow>
           (requests_get w url 30 = HTTPError msg \<or> requests_get w url 30 = RequestFailure msg \<longrightarrow>
              fst (generate_image w prompt options True save_dir) =
                Inl (ImageError \<lparr>code = ''DOWNLOAD_ERROR'',
                       message = ''Failed to download image: '' @ msg,
                       details = [(''url'', url), (''error'', msg)]\<rparr>))
           \<and> (requests_get w url 30 = Http_content content
               \<and> (makedirs w (dirname (auto_save_path w save_dir prompt parsed)) = OSError msg
                  \<or> makedirs w (dirname (auto_save_path w save_dir prompt parsed)) = Fs_done
                    \<and> write_file w (auto_save_path w save_dir prompt parsed) content
                        = OSError msg) \<longrightarrow>
              fst (generate_image w prompt options True save_dir) =
                Inl (ImageError \<lparr>code = ''SAVE_ERROR'',
                       message = ''Failed to save image: '' @ msg,
                       details = [(''save_path'', auto_save_path w save_dir prompt parsed),
                                  (''error'', msg)]\<rparr>))
           \<and> (requests_get w url 30 = Http_exception msg
               \<or> requests_get w url 30 = Http_content content
                 \<and> (makedirs w (dirname (auto_save_path w save_dir prompt parsed))
                       = Fs_exception msg
                    \<or> makedirs w (dirname (auto_save_path w save_dir prompt parsed)) = Fs_done
                      \<and> write_file w (auto_save_path w save_dir prompt parsed) content
                          = Fs_exception msg) \<longrightarrow>
              fst (generate_image w prompt options True save_dir) =
                Inl (ImageError \<lparr>code = ''GENERATION_FAILED'',
                       message = ''Image generation failed: '' @ msg,
                       details = [(''original_error'', msg)]\<rparr>))))
   \<and> (fst (generate_image w prompt options auto_save save_dir) = Inl x \<longrightarrow>
        (\<exists>err. x = ImageError err))"
proof -
  note v = assms
  have provider: "generate_image w prompt options auto_save save_dir =
      (Inl (ImageError (map_provider_error failure)),
       [ProviderCall (construct_payload prompt (or_default w options))])"
    if "images_generate w (construct_payload prompt (or_default w options)) = Inl failure"
    using v that by (rule generate_image_provider_failure)
  have parser: "generate_image w prompt options auto_save save_dir =
      (Inl (generate_image_except y),
       [ProviderCall (construct_payload prompt (or_default w options))])"
    if "images_generate w (construct_payload prompt (or_default w options)) = Inr response"
      and "parse w (response_to_dict response) prompt = Inl y" for y
    using v that by (rule generate_image_parser_failure)
  have download: "fst (generate_image w prompt options True save_dir) =
      Inl (generate_image_except y)"
    if "images_generate w (construct_payload prompt (or_default w options)) = Inr response"
      and "parse w (response_to_dict response) prompt = Inr parsed"
      and "truthy (image_url parsed)"
      and "raised (download_and_save_image w parsed (auto_save_path w save_dir prompt parsed))
             = Some y" for y
    using v that by (rule generate_image_download_failure)
  have t: "truthy (image_url parsed)" if "image_url parsed = Some url" and "url \<noteq> []"
    using that by (simp add: truthy_def)
  have env: "fst (generate_image w prompt options True save_dir) =
      Inl (generate_image_except y)"
    if "images_generate w (construct_payload prompt (or_default w options)) = Inr response"
      and "parse w (response_to_dict response) prompt = Inr parsed"
      and "image_url parsed = Some url" and "url \<noteq> []"
      and "raised (download_and_save_image w parsed (auto_save_path w save_dir prompt parsed))
             = Some y" for y
    using download [OF that(1) that(2) t [OF that(3) that(4)] that(5)] .
  have c1: "images_generate w (construct_payload prompt (or_default w options)) = Inl failure \<longrightarrow>
      generate_image w prompt options auto_save save_dir =
        (Inl (ImageError (map_provider_error failure)),
         [ProviderCall (construct_payload prompt (or_default w options))])"
    using provider by blast
  have c2: "parse w (response_to_dict response) prompt = Inl (ImageError e) \<longrightarrow>
      generate_image w prompt options auto_save save_dir =
        (Inl (ImageError e), [ProviderCall (construct_payload prompt (or_default w options))])"
    if "images_generate w (construct_payload prompt (or_default w options)) = Inr response"
    using parser [OF that, of "ImageError e"] by simp
  have c3: "parse w (response_to_dict response) prompt = Inl (ValueError m)
        \<or> parse w (response_to_dict response) prompt = Inl (OtherException m) \<longrightarrow>
      generate_image w prompt options auto_save save_dir =
        (Inl (ImageError \<lparr>code = ''GENERATION_FAILED'',
                message = ''Image generation failed: '' @ m,
                details = [(''original_error'', m)]\<rparr>),
         [ProviderCall (construct_payload prompt (or_default w options))])"
    if "images_generate w (construct_payload prompt (or_default w options)) = Inr response"
    using parser [OF that, of "ValueError m"] parser [OF that, of "OtherException m"]
    by (auto simp: generation_failed_def)
  have c4: "parse w (response_to_dict response) prompt = Inr parsed
        \<and> truthy (image_url parsed) \<longrightarrow>
      (raised (download_and_save_image w parsed (auto_save_path w save_dir prompt parsed))
         = Some (ImageError e) \<longrightarrow>
       fst (generate_image w prompt options True save_dir) = Inl (ImageError e))
      \<and> (raised (download_and_save_image w parsed (auto_save_path w save_dir prompt parsed))
            = Some (ValueError m)
          \<or> raised (download_and_save_image w parsed (auto_save_path w save_dir prompt parsed))
            = Some (OtherException m) \<longrightarrow>
          fst (generate_image w prompt options True save_dir) =
            Inl (ImageError \<lparr>code = ''GENERATION_FAILED'',
                   message = ''Image generation failed: '' @ m,
                   details = [(''original_error'', m)]\<rparr>))"
    if "images_generate w (construct_payload prompt (or_default w options)) = Inr response"
    using download [OF that, of "ImageError e"] download [OF that, of "ValueError m"]
      download [OF that, of "OtherException m"]
    by (auto simp: generation_failed_def)
  have c5: "parse w (response_to_dict response) prompt = Inr parsed
        \<and> image_url parsed = Some url \<and> url \<noteq> [] \<longrightarrow>
      (requests_get w url 30 = HTTPError msg \<or> requests_get w url 30 = RequestFailure msg \<longrightarrow>
         fst (generate_image w prompt options True save_dir) =
           Inl (ImageError \<lparr>code = ''DOWNLOAD_ERROR'',
                  message = ''Failed to download image: '' @ msg,
                  details = [(''url'', url), (''error'', msg)]\<rparr>))
      \<and> (requests_get w url 30 = Http_content content
          \<and> (makedirs w (dirname (auto_save_path w save_dir prompt parsed)) = OSError msg
             \<or> makedirs w (dirname (auto_save_path w save_dir prompt parsed)) = Fs_done
               \<and> write_file w (auto_save_path w save_dir prompt parsed) content
                   = OSError msg) \<longrightarrow>
         fst (generate_image w prompt options True save_dir) =
           Inl (ImageError \<lparr>code = ''SAVE_ERROR'',
                  message = ''Failed to save image: '' @ msg,
                  details = [(''save_path'', auto_save_path w save_dir prompt parsed),
                             (''error'', msg)]\<rparr>))
      \<and> (requests_get w url 30 = Http_exception msg
          \<or> requests_get w url 30 = Http_content content
            \<and> (makedirs w (dirname (auto_save_path w save_dir prompt parsed))
                  = Fs_exception msg
               \<or> makedirs w (dirname (auto_save_path w save_dir prompt parsed)) = Fs_done
                 \<and> write_file w (auto_save_path w save_dir prompt parsed) content
                     = Fs_exception msg) \<longrightarrow>
         fst (generate_image w prompt options True save_dir) =
           Inl (ImageError \<lparr>code = ''GENERATION_FAILED'',
                  message = ''Image generation failed: '' @ msg,
                  details = [(''original_error'', msg)]\<rparr>))"
    if r: "images_generate w (construct_payload prompt (or_default w options)) = Inr response"
  proof (intro impI, elim conjE)
    assume p: "parse w (response_to_dict response) prompt = Inr parsed"
      and u: "image_url parsed = Some url" "url \<noteq> []"
    note rs = download_raised [OF u, of w _ "auto_save_path w save_dir prompt parsed"]
    have a: "fst (generate_image w prompt options True save_dir) =
        Inl (ImageError \<lparr>code = ''DOWNLOAD_ERROR'',
               message = ''Failed to download image: '' @ msg,
               details = [(''url'', url), (''error'', msg)]\<rparr>)"
      if "requests_get w url 30 = HTTPError msg \<or> requests_get w url 30 = RequestFailure msg"
      using env [OF r p u rs(1) [OF that]] by (simp add: download_error_def)
    have b: "fst (generate_image w prompt options True save_dir) =
        Inl (ImageError \<lparr>code = ''SAVE_ERROR'',
               message = ''Failed to save image: '' @ msg,
               details = [(''save_path'', auto_save_path w save_dir prompt parsed),
                          (''error'', msg)]\<rparr>)"
      if "requests_get w url 30 = Http_content content"
        and "makedirs w (dirname (auto_save_path w save_dir prompt parsed)) = OSError msg
          \<or> makedirs w (dirname (auto_save_path w save_dir prompt parsed)) = Fs_done
            \<and> write_file w (auto_save_path w save_dir prompt parsed) content = OSError msg"
      using env [OF r p u rs(3) [OF that]] by (simp add: save_error_def)
    have c: "fst (generate_image w prompt options True save_dir) =
        Inl (ImageError \<lparr>code = ''GENERATION_FAILED'',
               message = ''Image generation failed: '' @ msg,
               details = [(''original_error'', msg)]\<rparr>)"
      if "requests_get w url 30 = Http_exception msg"
      using env [OF r p u rs(2) [OF that]] by (simp add: generation_failed_def)
    have d: "fst (generate_image w prompt options True save_dir) =
        Inl (ImageError \<lparr>code = ''GENERATION_FAILED'',
               message = ''Image generation failed: '' @ msg,
               details = [(''original_error'', msg)]\<rparr>)"
      if "requests_get w url 30 = Http_content content"
        and "makedirs w (dirname (auto_save_path w save_dir prompt parsed)) = Fs_exception msg
          \<or> makedirs w (dirname (auto_save_path w save_dir prompt parsed)) = Fs_done
            \<and> write_file w (auto_save_path w save_dir prompt parsed) content
                = Fs_exception msg"
      using env [OF r p u rs(4) [OF that]] by (simp add: generation_failed_def)
    from a b c d show "(requests_get w url 30 = HTTPError msg
          \<or> requests_get w url 30 = RequestFailure msg \<longrightarrow>
         fst (generate_image w prompt options True save_dir) =
           Inl (ImageError \<lparr>code = ''DOWNLOAD_ERROR'',
                  message = ''Failed to download image: '' @ msg,
                  details = [(''url'', url), (''error'', msg)]\<rparr>))
      \<and> (requests_get w url 30 = Http_content content
          \<and> (makedirs w (dirname (auto_save_path w save_dir prompt parsed)) = OSError msg
             \<or> makedirs w (dirname (auto_save_path w save_dir prompt parsed)) = Fs_done
               \<and> write_file w (auto_save_path w save_dir prompt parsed) content
                   = OSError msg) \<longrightarrow>
         fst (generate_image w prompt options True save_dir) =
           Inl (ImageError \<lparr>code = ''SAVE_ERROR'',
                  message = ''Failed to save image: '' @ msg,
                  details = [(''save_path'', auto_save_path w save_dir prompt parsed),
                             (''error'', msg)]\<rparr>))
      \<and> (requests_get w url 30 = Http_exception msg
          \<or> requests_get w url 30 = Http_content content
            \<and> (makedirs w (dirname (auto_save_path w save_dir prompt parsed))
                  = Fs_exception msg
               \<or> makedirs w (dirname (auto_save_path w save_dir prompt parsed)) = Fs_done
                 \<and> write_file w (auto_save_path w save_dir prompt parsed) content
                     = Fs_exception msg) \<longrightarrow>
         fst (generate_image w prompt options True save_dir) =
           Inl (ImageError \<lparr>code = ''GENERATION_FAILED'',
                  message = ''Image generation failed: '' @ msg,
                  details = [(''original_error'', msg)]\<rparr>))"
      by blast
  qed
  have c6: "fst (generate_image w prompt options auto_save save_dir) = Inl x \<longrightarrow>
      (\<exists>err. x = ImageError err)"
    using generate_image_raises_image_error [OF v] by blast
  from c1 c2 c3 c4 c5 c6 show ?thesis by blast
qed

theorem generate_image_error_propagation_witness:
  "validate_prompt ''A space cat''
   \<and> fst (generate_image readonly_world ''A space cat'' None True ''generated_images'') =
       Inl (ImageError \<lparr>code = ''SAVE_ERROR'',
              message = ''Failed to save image: Permission denied'',
              details = [(''save_path'',
                          ''generated_images/a_space_cat_20250101_120000_gen-abc123.png''),
                         (''error'', ''Permission denied'')]\<rparr>)
   \<and> generate_image no_image_world ''A space cat'' None True ''generated_images'' =
       (Inl (ImageError \<lparr>code = ''GENERATION_FAILED'',
               message = ''Image generation failed: list index out of range'',
               details = [(''original_error'', ''list index out of range'')]\<rparr>),
        [ProviderCall (construct_payload ''A space cat'' (or_default no_image_world None))])"
  using generate_image_error_propagation [OF valid_cat,
      where w = readonly_world and options = None and save_dir = "''generated_images''"
        and response = "\<lparr>resp_created = Some (PInt 1735732800),
              resp_data = [[(''url'', PStr cat_url), (''b64_json'', PNone),
                            (''revised_prompt'', PNone)]]\<rparr>"
        and parsed = cat_result and url = cat_url and content = cat_bytes
        and msg = "''Permission denied''"]
    generate_image_error_propagation [OF valid_cat,
      where w = no_image_world and options = None and auto_save = True
        and save_dir = "''generated_images''"
        and response = "\<lparr>resp_created = Some (PInt 1735732800), resp_data = []\<rparr>"
        and m = "''list index out of range''"]
    valid_cat
  by (simp add: readonly_world_fields readonly_auto_save_path cat_parse cat_result_fields
      cat_paths no_image_world_fields no_image_parse)

section \<open>The filename rule\<close>

lemma keep_source: "source_keep c = (\<not> stripped_char c)"
  by (auto simp: source_keep_def stripped_char_def word_char_def)

lemma re_sub_each_delete: "re_sub_each cls [] s = filter (\<lambda>c. \<not> cls c) s"
  by (induction s) auto

lemma collapse_runs_re_sub:
  "collapse_runs False s = re_sub_runs separator_char ''_'' s
   \<and> collapse_runs True s = re_sub_runs separator_char ''_'' (dropWhile separator_char s)"
  by (induction s) (auto simp: separator_char_def)

lemma clean_prompt_rule:
  "clean_prompt prompt = truncate_50 (collapse_runs False (filter source_keep (lower prompt)))"
  by (simp add: clean_prompt_def Let_def truncate_50_def re_sub_each_delete
      collapse_runs_re_sub keep_source [abs_def] not_less)

lemma rstrip_underscore_length: "length (rstrip_underscore s) \<le> length s"
  by (simp add: rstrip_underscore_def) (metis length_dropWhile_le length_rev)

lemma clean_prompt_length: "length (clean_prompt prompt) \<le> 50"
proof -
  have "length (rstrip_underscore (take 50 s)) \<le> 50" for s
    using rstrip_underscore_length [of "take 50 s"] by simp
  then show ?thesis
    by (simp add: clean_prompt_def Let_def)
qed

lemma helmet_clean: "clean_prompt ''A cat wearing a space helmet!'' = ''a_cat_wearing_a_space_helmet''"
  by code_simp

lemma strftime_length: "length (strftime t) = 15"
  by (simp add: strftime_def four_digits_def two_digits_def)

lemma strftime_new_year_noon: "strftime new_year_noon = ''20250101_120000''"
  by code_simp

text \<open>
  C2. For every prompt, generation id and time of the clock, the filename is the
  lowercased prompt with every character removed that is not alphanumeric, an
  underscore, whitespace or a hyphen, with each run of whitespace and hyphens turned
  into one underscore, cut to its first 50 characters with trailing underscores
  trimmed when it is longer than 50, followed by an underscore, the timestamp, an
  underscore, the generation id and \<open>.png\<close>. For the prompt
  "A cat wearing a space helmet!" and the id "gen-abc123" this is
  \<open>a_cat_wearing_a_space_helmet_<timestamp>_gen-abc123.png\<close>.
\<close>

theorem safe_filename_rule:
  "generate_safe_filename t prompt gen_id = filename_rule source_keep t prompt gen_id
   \<and> generate_safe_filename t prompt gen_id =
       clean_prompt prompt @ ''_'' @ strftime t @ ''_'' @ gen_id @ ''.png''
   \<and> length (clean_prompt prompt) \<le> 50
   \<and> length (strftime t) = 15
   \<and> generate_safe_filename t ''A cat wearing a space helmet!'' ''gen-abc123'' =
       ''a_cat_wearing_a_space_helmet_'' @ strftime t @ ''_gen-abc123.png''
   \<and> generate_safe_filename new_year_noon ''A cat wearing a space helmet!'' ''gen-abc123'' =
       ''a_cat_wearing_a_space_helmet_20250101_120000_gen-abc123.png''"
  by (simp add: generate_safe_filename_def filename_rule_def clean_prompt_rule [symmetric]
      helmet_clean strftime_new_year_noon strftime_length clean_prompt_length)

text \<open>
  The rule that removes every character that is not alphanumeric, whitespace or a
  hyphen removes the underscore of the prompt \<open>a_b\<close>; the source keeps it.
\<close>

lemma underscore_source: "generate_safe_filename new_year_noon ''a_b'' ''gen-abc123'' =
  ''a_b_20250101_120000_gen-abc123.png''"
  by code_simp

lemma underscore_stated: "filename_rule stated_keep new_year_noon ''a_b'' ''gen-abc123'' =
  ''ab_20250101_120000_gen-abc123.png''"
  by code_simp

theorem safe_filename_underscore_counterexample:
  "generate_safe_filename new_year_noon ''a_b'' ''gen-abc123'' =
     ''a_b_20250101_120000_gen-abc123.png''
   \<and> filename_rule stated_keep new_year_noon ''a_b'' ''gen-abc123'' =
     ''ab_20250101_120000_gen-abc123.png''
   \<and> generate_safe_filename new_year_noon ''a_b'' ''gen-abc123''
     \<noteq> filename_rule stated_keep new_year_noon ''a_b'' ''gen-abc123''"
  by (simp add: underscore_source underscore_stated)

text \<open>
  A cleaned prompt of at most 50 characters keeps a trailing underscore: trimming is
  part of the cut.
\<close>

lemma short_prompt_keeps_trailing_underscore:
  "generate_safe_filename new_year_noon ''cat '' ''gen-abc123'' =
     ''cat__20250101_120000_gen-abc123.png''"
  by code_simp

end
